theory Spec2Isabelle
  imports Complex_Main
begin

section \<open>Python values used by the user service\<close>

text \<open>
  The service of \<^verbatim>\<open>src/examples/fastapi/services/user_service.py\<close> works on Python
  \<^verbatim>\<open>str\<close> and \<^verbatim>\<open>int\<close> values. A Python string is a sequence of Unicode code
  points and \<^verbatim>\<open>len\<close> counts code points, so a string is a list of code points here
  (a three-syllable Korean name has length 3). Python integers are unbounded: \<open>int\<close>.

  The identifiers of the source are Korean and cannot be Isabelle names. Each definition
  below carries the line numbers of the method it embeds and an English gloss of its name.
\<close>

type_synonym pystr = "nat list"

definition cp :: "string \<Rightarrow> pystr" where
  "cp s = map of_char s"

text \<open>
  \<^verbatim>\<open>str.strip()\<close> without argument removes leading and trailing white space, which for
  CPython is the set of code points for which \<^verbatim>\<open>str.isspace\<close> holds: U+0009..U+000D,
  U+001C..U+001F, U+0020, U+0085, U+00A0, U+1680, U+2000..U+200A, U+2028, U+2029, U+202F,
  U+205F and U+3000.
\<close>

definition py_isspace :: "nat \<Rightarrow> bool" where
  "py_isspace c \<longleftrightarrow>
     (9 \<le> c \<and> c \<le> 13) \<or> (28 \<le> c \<and> c \<le> 32) \<or> c = 133 \<or> c = 160 \<or> c = 5760 \<or>
     (8192 \<le> c \<and> c \<le> 8202) \<or> c = 8232 \<or> c = 8233 \<or> c = 8239 \<or> c = 8287 \<or> c = 12288"

definition py_strip :: "pystr \<Rightarrow> pystr" where
  "py_strip s = rev (dropWhile py_isspace (rev (dropWhile py_isspace s)))"

text \<open>
  \<^verbatim>\<open>str.lower()\<close> maps \<^verbatim>\<open>A\<close>..\<^verbatim>\<open>Z\<close> to \<^verbatim>\<open>a\<close>..\<^verbatim>\<open>z\<close> and leaves every other ASCII
  code point alone. On a string with a code point beyond ASCII it follows the case mapping
  of the Unicode database, which is not part of the repository: that mapping is the
  parameter \<open>U\<close>.
\<close>

definition ascii_lower :: "nat \<Rightarrow> nat" where
  "ascii_lower c = (if 65 \<le> c \<and> c \<le> 90 then c + 32 else c)"

definition py_lower :: "(pystr \<Rightarrow> pystr) \<Rightarrow> pystr \<Rightarrow> pystr" where
  "py_lower U s = (if list_all (\<lambda>c. c < 128) s then map ascii_lower s else U s)"

text \<open>
  A test \<^verbatim>\<open>if v:\<close> on a \<^verbatim>\<open>str | None\<close>: \<^verbatim>\<open>None\<close> and the empty string are
  false. \<open>if_truthy v\<close> is the string in the branch taken when the test holds.
\<close>

definition if_truthy :: "pystr option \<Rightarrow> pystr option" where
  "if_truthy v = (case v of None \<Rightarrow> None | Some s \<Rightarrow> if s = [] then None else Some s)"

section \<open>Regular expressions and \<^verbatim>\<open>re.match\<close>\<close>

text \<open>
  The e-mail check calls \<^verbatim>\<open>re.match\<close> with a pattern made of character classes,
  concatenation and repetition, between \<^verbatim>\<open>^\<close> and \<^verbatim>\<open>$\<close>. A character class is a list
  of inclusive code point ranges. The body of a pattern is matched with derivatives.
\<close>

datatype rx =
    Null
  | Empty
  | Class "(nat \<times> nat) list"
  | Cat rx rx
  | Or rx rx
  | Many rx

definition in_class :: "(nat \<times> nat) list \<Rightarrow> nat \<Rightarrow> bool" where
  "in_class rs c = list_ex (\<lambda>(lo, hi). lo \<le> c \<and> c \<le> hi) rs"

fun nullable :: "rx \<Rightarrow> bool" where
  "nullable Null = False"
| "nullable Empty = True"
| "nullable (Class rs) = False"
| "nullable (Cat r s) = (nullable r \<and> nullable s)"
| "nullable (Or r s) = (nullable r \<or> nullable s)"
| "nullable (Many r) = True"

fun deriv :: "nat \<Rightarrow> rx \<Rightarrow> rx" where
  "deriv c Null = Null"
| "deriv c Empty = Null"
| "deriv c (Class rs) = (if in_class rs c then Empty else Null)"
| "deriv c (Cat r s) =
     (if nullable r then Or (Cat (deriv c r) s) (deriv c s) else Cat (deriv c r) s)"
| "deriv c (Or r s) = Or (deriv c r) (deriv c s)"
| "deriv c (Many r) = Cat (deriv c r) (Many r)"

fun full_match :: "rx \<Rightarrow> pystr \<Rightarrow> bool" where
  "full_match r [] = nullable r"
| "full_match r (c # cs) = full_match (deriv c r) cs"

text \<open>
  \<^verbatim>\<open>re.match('^' + body + '$', s)\<close>: the body has to match from the start of \<open>s\<close>, and
  Python's \<^verbatim>\<open>$\<close> (without \<^verbatim>\<open>re.MULTILINE\<close>) holds at the end of the string and also
  just before a line feed that ends the string. The result of \<^verbatim>\<open>re.match\<close> is used as a
  truth value only.
\<close>

definition re_match_anchored :: "rx \<Rightarrow> pystr \<Rightarrow> bool" where
  "re_match_anchored body s \<longleftrightarrow>
     full_match body s \<or> (s \<noteq> [] \<and> last s = 10 \<and> full_match body (butlast s))"

text \<open>
  The pattern of line 266,
  \<^verbatim>\<open>^[a-zA-Z0-9._%+-]+@[a-zA-Z0-9.-]+\.[a-zA-Z]{2,}$\<close>.
\<close>

definition one_or_more :: "rx \<Rightarrow> rx" where
  "one_or_more r = Cat r (Many r)"

definition two_or_more :: "rx \<Rightarrow> rx" where
  "two_or_more r = Cat r (Cat r (Many r))"

definition alpha_class :: "(nat \<times> nat) list" where
  "alpha_class = [(97, 122), (65, 90)]"

definition local_class :: "(nat \<times> nat) list" where
  "local_class = [(97, 122), (65, 90), (48, 57), (46, 46), (95, 95), (37, 37), (43, 43), (45, 45)]"

definition domain_class :: "(nat \<times> nat) list" where
  "domain_class = [(97, 122), (65, 90), (48, 57), (46, 46), (45, 45)]"

definition email_body :: rx where
  "email_body =
     Cat (one_or_more (Class local_class))
       (Cat (Class [(64, 64)])
         (Cat (one_or_more (Class domain_class))
           (Cat (Class [(46, 46)]) (two_or_more (Class alpha_class)))))"

section \<open>Entities, requests and responses\<close>

text \<open>
  Modelled from the spec: the entity class \<^verbatim>\<open>User\<close> (module \<^verbatim>\<open>src.domain.user\<close>) is not
  among the source files. The service reads and writes its name, e-mail and active flag and
  the tests read its id, which is absent until the repository has stored the entity. The
  creation timestamp of the data model is neither read nor written by the service and is
  left out.
\<close>

record user =
  user_id :: "int option"
  user_name :: pystr
  user_email :: pystr
  user_active :: bool

text \<open>
  Modelled from the spec: the request classes \<^verbatim>\<open>UserCreateDTO\<close> and \<^verbatim>\<open>UserUpdateDTO\<close>
  (module \<^verbatim>\<open>src.dto.request.user\<close>) are not among the source files. The spec gives
  \<^verbatim>\<open>CreateRequest {name: string, email: string}\<close> and
  \<^verbatim>\<open>UpdateRequest {name?: string, email?: string}\<close>.
\<close>

record create_dto =
  create_name :: pystr
  create_email :: pystr

record update_dto =
  update_name :: "pystr option"
  update_email :: "pystr option"

text \<open>
  Modelled from the spec: the envelope \<^verbatim>\<open>PaginatedResponse\<close> (module
  \<^verbatim>\<open>src.dto.response.user\<close>) is not among the source files. Its fields are those the
  service passes at lines 169 to 175. The item type is a parameter, since
  \<^verbatim>\<open>UserResponse\<close> is missing as well.
\<close>

record 'r paginated_response =
  items :: "'r list"
  total :: int
  page :: int
  page_size :: int
  pages :: int

text \<open>
  Every failure of the service is a Python \<^verbatim>\<open>ValueError\<close>; the constructors stand for
  the seven messages (lines 246, 251, 269, 283, 129, 157 and 160), with the value that the
  message quotes.
\<close>

datatype error =
    NameTooShort
  | NameTooLong
  | InvalidEmail pystr
  | DuplicateName pystr
  | NotFound int
  | PageTooSmall
  | PageSizeOutOfRange

section \<open>The repository protocol\<close>

text \<open>
  \<^verbatim>\<open>IUserRepository\<close> (lines 13 to 45) is the protocol the service is given: create,
  get by id, get by name, paginated list, update and delete. An implementation is a record
  of operations on a store of type \<open>'s\<close>; each returns its result and the new store.
  The results have the types the protocol annotates (a user, a user or \<^verbatim>\<open>None\<close>, a list
  with a count, a boolean): an operation of the protocol returns and does not raise.
  The service runs in a world made of the store and the list of repository calls made so
  far, oldest first, so that "never invoked" is a statement about that list.

  An entity that the repository hands out is a Python object, and update-user assigns to
  its attributes (lines 205 and 209) before it calls the repository again. Whether the store
  sees such an assignment is a matter of the implementation: a database session keeps the
  object it returned, so that the record is changed at once, and a repository that returns
  copies does not. \<open>repo_assign R old new s\<close> is the store after the object that was
  handed out as \<open>old\<close> has become \<open>new\<close>. It is no call of the protocol and is not
  listed among the calls.
\<close>

record 's repository =
  repo_create :: "user \<Rightarrow> 's \<Rightarrow> user \<times> 's"
  repo_get :: "int \<Rightarrow> 's \<Rightarrow> user option \<times> 's"
  repo_get_by_name :: "pystr \<Rightarrow> 's \<Rightarrow> user option \<times> 's"
  repo_list :: "int \<Rightarrow> int \<Rightarrow> 's \<Rightarrow> (user list \<times> int) \<times> 's"
  repo_update :: "user \<Rightarrow> 's \<Rightarrow> user \<times> 's"
  repo_delete :: "int \<Rightarrow> 's \<Rightarrow> bool \<times> 's"
  repo_assign :: "user \<Rightarrow> user \<Rightarrow> 's \<Rightarrow> 's"

datatype call =
    Create user
  | Get int
  | GetByName pystr
  | ListPage int int
  | Update user
  | Delete int

type_synonym 's world = "'s \<times> call list"

definition call_create :: "'s repository \<Rightarrow> user \<Rightarrow> 's world \<Rightarrow> user \<times> 's world" where
  "call_create R u w =
     (case repo_create R u (fst w) of (r, s') \<Rightarrow> (r, (s', snd w @ [Create u])))"

definition call_get :: "'s repository \<Rightarrow> int \<Rightarrow> 's world \<Rightarrow> user option \<times> 's world" where
  "call_get R i w =
     (case repo_get R i (fst w) of (r, s') \<Rightarrow> (r, (s', snd w @ [Get i])))"

definition call_get_by_name ::
  "'s repository \<Rightarrow> pystr \<Rightarrow> 's world \<Rightarrow> user option \<times> 's world" where
  "call_get_by_name R n w =
     (case repo_get_by_name R n (fst w) of (r, s') \<Rightarrow> (r, (s', snd w @ [GetByName n])))"

definition call_list ::
  "'s repository \<Rightarrow> int \<Rightarrow> int \<Rightarrow> 's world \<Rightarrow> (user list \<times> int) \<times> 's world" where
  "call_list R p n w =
     (case repo_list R p n (fst w) of (r, s') \<Rightarrow> (r, (s', snd w @ [ListPage p n])))"

definition call_update :: "'s repository \<Rightarrow> user \<Rightarrow> 's world \<Rightarrow> user \<times> 's world" where
  "call_update R u w =
     (case repo_update R u (fst w) of (r, s') \<Rightarrow> (r, (s', snd w @ [Update u])))"

definition call_delete :: "'s repository \<Rightarrow> int \<Rightarrow> 's world \<Rightarrow> bool \<times> 's world" where
  "call_delete R i w =
     (case repo_delete R i (fst w) of (r, s') \<Rightarrow> (r, (s', snd w @ [Delete i])))"

definition assign :: "'s repository \<Rightarrow> user \<Rightarrow> user \<Rightarrow> 's world \<Rightarrow> 's world" where
  "assign R old new w = (repo_assign R old new (fst w), snd w)"

section \<open>The service\<close>

text \<open>Lines 63 and 64: the bounds on the length of a name.\<close>

definition min_name_length :: nat where
  "min_name_length = 3"

definition max_name_length :: nat where
  "max_name_length = 50"

text \<open>
  The three private checks return \<open>None\<close> when the Python method returns normally and
  the error when it raises.

  Lines 234 to 253, "validate name length".
\<close>

definition validate_name_length :: "pystr \<Rightarrow> error option" where
  "validate_name_length n =
     (let l = length (py_strip n) in
      if l < min_name_length then Some NameTooShort
      else if l > max_name_length then Some NameTooLong
      else None)"

text \<open>Lines 255 to 269, "validate e-mail format".\<close>

definition validate_email_format :: "pystr \<Rightarrow> error option" where
  "validate_email_format e =
     (if \<not> re_match_anchored email_body e then Some (InvalidEmail e) else None)"

text \<open>
  Lines 271 to 283, "validate name not duplicated". The entity the repository returns is an
  object and so true whenever it is not \<^verbatim>\<open>None\<close>.
\<close>

definition validate_name_unique ::
  "'s repository \<Rightarrow> pystr \<Rightarrow> 's world \<Rightarrow> error option \<times> 's world" where
  "validate_name_unique R n w =
     (case call_get_by_name R n w of
        (Some existing, w') \<Rightarrow> (Some (DuplicateName n), w')
      | (None, w') \<Rightarrow> (None, w'))"

text \<open>Lines 73 to 112, "create user".\<close>

definition create_user ::
  "(pystr \<Rightarrow> pystr) \<Rightarrow> 's repository \<Rightarrow> create_dto \<Rightarrow> 's world \<Rightarrow> (error + user) \<times> 's world" where
  "create_user U R dto w =
     (case validate_name_length (create_name dto) of
        Some e \<Rightarrow> (Inl e, w)
      | None \<Rightarrow>
     (case validate_email_format (create_email dto) of
        Some e \<Rightarrow> (Inl e, w)
      | None \<Rightarrow>
     (case validate_name_unique R (create_name dto) w of
        (Some e, w1) \<Rightarrow> (Inl e, w1)
      | (None, w1) \<Rightarrow>
          (let u = \<lparr>user_id = None,
                    user_name = py_strip (create_name dto),
                    user_email = py_lower U (create_email dto),
                    user_active = True\<rparr>
           in case call_create R u w1 of (r, w2) \<Rightarrow> (Inr r, w2)))))"

text \<open>Lines 114 to 131, "get user".\<close>

definition get_user :: "'s repository \<Rightarrow> int \<Rightarrow> 's world \<Rightarrow> (error + user) \<times> 's world" where
  "get_user R i w =
     (case call_get R i w of
        (None, w') \<Rightarrow> (Inl (NotFound i), w')
      | (Some u, w') \<Rightarrow> (Inr u, w'))"

text \<open>
  Lines 133 to 175, "list users". \<^verbatim>\<open>UserResponse.from_entity\<close> is not among the source
  files and is the parameter \<open>from_entity\<close>. Python's \<^verbatim>\<open>//\<close> rounds towards minus
  infinity, as \<open>div\<close> on \<open>int\<close> does, and the divisor is at least 1 where it is reached.
\<close>

definition list_users ::
  "(user \<Rightarrow> 'r) \<Rightarrow> 's repository \<Rightarrow> int \<Rightarrow> int \<Rightarrow> 's world \<Rightarrow>
     (error + 'r paginated_response) \<times> 's world" where
  "list_users from_entity R p n w =
     (if p < 1 then (Inl PageTooSmall, w)
      else if \<not> (1 \<le> n \<and> n \<le> 100) then (Inl PageSizeOutOfRange, w)
      else
        (case call_list R p n w of
           ((users, t), w') \<Rightarrow>
             (Inr \<lparr>items = map from_entity users,
                   total = t,
                   page = p,
                   page_size = n,
                   pages = (t + n - 1) div n\<rparr>, w')))"

text \<open>
  Lines 177 to 212, "update user". The fetched entity is changed field by field and then
  handed to the repository. The two blocks of lines 198 to 205 and 207 to 209 are the two
  steps below. Each assignment to an attribute of the fetched object (lines 205 and 209)
  takes effect when it is made: the name is assigned before the e-mail is checked, so an
  update that fails on the e-mail has already renamed the object.
\<close>

definition update_name_step ::
  "'s repository \<Rightarrow> pystr option \<Rightarrow> user \<Rightarrow> 's world \<Rightarrow> (error + user) \<times> 's world" where
  "update_name_step R v u w =
     (case if_truthy v of
        None \<Rightarrow> (Inr u, w)
      | Some n \<Rightarrow>
         (case validate_name_length n of
            Some e \<Rightarrow> (Inl e, w)
          | None \<Rightarrow>
             (case (if n \<noteq> user_name u then validate_name_unique R n w else (None, w)) of
                (Some e, w') \<Rightarrow> (Inl e, w')
              | (None, w') \<Rightarrow>
                  (let u' = u\<lparr>user_name := py_strip n\<rparr>
                   in (Inr u', assign R u u' w')))))"

definition update_email_step ::
  "(pystr \<Rightarrow> pystr) \<Rightarrow> 's repository \<Rightarrow> pystr option \<Rightarrow> user \<Rightarrow> 's world \<Rightarrow>
     (error + user) \<times> 's world" where
  "update_email_step U R v u w =
     (case if_truthy v of
        None \<Rightarrow> (Inr u, w)
      | Some m \<Rightarrow>
         (case validate_email_format m of
            Some e \<Rightarrow> (Inl e, w)
          | None \<Rightarrow>
              (let u' = u\<lparr>user_email := py_lower U m\<rparr>
               in (Inr u', assign R u u' w))))"

definition update_user ::
  "(pystr \<Rightarrow> pystr) \<Rightarrow> 's repository \<Rightarrow> int \<Rightarrow> update_dto \<Rightarrow> 's world \<Rightarrow>
     (error + user) \<times> 's world" where
  "update_user U R i dto w =
     (case get_user R i w of
        (Inl e, w0) \<Rightarrow> (Inl e, w0)
      | (Inr u0, w0) \<Rightarrow>
     (case update_name_step R (update_name dto) u0 w0 of
        (Inl e, w1) \<Rightarrow> (Inl e, w1)
      | (Inr u1, w1) \<Rightarrow>
     (case update_email_step U R (update_email dto) u1 w1 of
        (Inl e, w2) \<Rightarrow> (Inl e, w2)
      | (Inr u2, w2) \<Rightarrow> (case call_update R u2 w2 of (r, w3) \<Rightarrow> (Inr r, w3)))))"

text \<open>Lines 214 to 230, "delete user".\<close>

definition delete_user :: "'s repository \<Rightarrow> int \<Rightarrow> 's world \<Rightarrow> (error + bool) \<times> 's world" where
  "delete_user R i w =
     (case get_user R i w of
        (Inl e, w') \<Rightarrow> (Inl e, w')
      | (Inr u, w') \<Rightarrow> (case call_delete R i w' of (b, w'') \<Rightarrow> (Inr b, w'')))"

text \<open>
  The repository calls a run of the service has added to the list of the world it started
  in.
\<close>

definition made_calls :: "'s world \<Rightarrow> 'a \<times> 's world \<Rightarrow> call list" where
  "made_calls w r = drop (length (snd w)) (snd (snd r))"

section \<open>What the pattern and the page count mean\<close>

text \<open>
  The language of a regular expression, to say what the matcher decides.
\<close>

definition conc :: "pystr set \<Rightarrow> pystr set \<Rightarrow> pystr set" where
  "conc A B = {u @ v | u v. u \<in> A \<and> v \<in> B}"

inductive_set star :: "pystr set \<Rightarrow> pystr set" for A :: "pystr set" where
  star_empty: "[] \<in> star A"
| star_more: "u \<in> A \<Longrightarrow> v \<in> star A \<Longrightarrow> u @ v \<in> star A"

fun lang :: "rx \<Rightarrow> pystr set" where
  "lang Null = {}"
| "lang Empty = {[]}"
| "lang (Class rs) = {[c] | c. in_class rs c}"
| "lang (Cat r s) = conc (lang r) (lang s)"
| "lang (Or r s) = lang r \<union> lang s"
| "lang (Many r) = star (lang r)"

text \<open>
  The pattern read as a description of an address: a local part of one or more characters
  of \<^verbatim>\<open>[a-zA-Z0-9._%+-]\<close>, an at sign, a domain of one or more characters of
  \<^verbatim>\<open>[a-zA-Z0-9.-]\<close>, a dot, and two or more letters.
\<close>

definition email_shape :: "pystr \<Rightarrow> bool" where
  "email_shape s \<longleftrightarrow>
     (\<exists>l d t. s = l @ [64] @ d @ [46] @ t \<and>
        l \<noteq> [] \<and> list_all (in_class local_class) l \<and>
        d \<noteq> [] \<and> list_all (in_class domain_class) d \<and>
        2 \<le> length t \<and> list_all (in_class alpha_class) t)"

text \<open>
  The page count in the spec's words, "total pages = ceil(total/page_size)", over the reals.
\<close>

definition pages_spec :: "int \<Rightarrow> int \<Rightarrow> int" where
  "pages_spec t n = \<lceil>real_of_int t / real_of_int n\<rceil>"

section \<open>A repository to run the service on\<close>

text \<open>
  The theorems about the service hold for every implementation of the protocol. To run the
  service on concrete requests, the following stand-in keeps the users in a list, as the
  mock of \<^verbatim>\<open>tests/test_user_service.py\<close> stands in for the database. It looks a user up
  by the exact id and by the exact name (the comparisons of lines 67 and 80 of
  \<^verbatim>\<open>repositories/user_repository.py\<close>), gives a stored user the next free id, replaces
  the row of an updated user, and reports whether a row was deleted (lines 243 to 250). It
  lists in table order; the ordering by timestamp of the database repository is not modelled.
  It shares the objects it hands out, as a session does and as the mock does with its sample
  user: an assignment to a fetched user changes the row with that id.
\<close>

definition fresh_id :: "user list \<Rightarrow> int" where
  "fresh_id t = 1 + fold (\<lambda>u m. max m (case user_id u of None \<Rightarrow> 0 | Some i \<Rightarrow> i)) t 0"

definition table_repository :: "user list repository" where
  "table_repository =
     \<lparr>repo_create = (\<lambda>u t. let u' = u\<lparr>user_id := Some (fresh_id t)\<rparr> in (u', t @ [u'])),
      repo_get = (\<lambda>i t. (find (\<lambda>u. user_id u = Some i) t, t)),
      repo_get_by_name = (\<lambda>n t. (find (\<lambda>u. user_name u = n) t, t)),
      repo_list = (\<lambda>p n t. ((take (nat n) (drop (nat ((p - 1) * n)) t), int (length t)), t)),
      repo_update = (\<lambda>u t. (u, map (\<lambda>v. if user_id v = user_id u then u else v) t)),
      repo_delete = (\<lambda>i t.
        (case find (\<lambda>u. user_id u = Some i) t of
           None \<Rightarrow> (False, t)
         | Some u \<Rightarrow> (True, filter (\<lambda>v. user_id v \<noteq> Some i) t))),
      repo_assign = (\<lambda>old new t. map (\<lambda>v. if user_id v = user_id old then new else v) t)\<rparr>"

text \<open>Two stored users and the requests used in the examples.\<close>

definition kim :: user where
  "kim = \<lparr>user_id = Some 1, user_name = cp ''kim'', user_email = cp ''kim@test.com'',
           user_active = True\<rparr>"

definition hong :: user where
  "hong = \<lparr>user_id = Some 2, user_name = cp ''hong'', user_email = cp ''hong@test.com'',
            user_active = True\<rparr>"

definition kim_again :: user where
  "kim_again = \<lparr>user_id = Some 2, user_name = cp ''kim'', user_email = cp ''kim2@test.com'',
                 user_active = True\<rparr>"

definition hong_line_feed :: user where
  "hong_line_feed = \<lparr>user_id = Some 2, user_name = cp ''hong'',
                      user_email = cp ''hong@test.com'' @ [10], user_active = True\<rparr>"

section \<open>Each operation as one case distinction\<close>

text \<open>
  The checks of an operation unfolded: which error it raises or which repository calls it
  makes, in the order of the source.
\<close>

lemma pages_formula:
  assumes "1 \<le> n"
  shows "(t + n - 1) div n = pages_spec t n"
proof -
  define q where "q = (t + n - 1) div n"
  define r where "r = (t + n - 1) mod n"
  have n: "0 < n" using assms by simp
  have split: "t + n - 1 = n * q + r"
    unfolding q_def r_def by simp
  have r: "0 \<le> r" "r < n"
    unfolding r_def using n by simp_all
  have lo: "(q - 1) * n < t"
  proof -
    have "t = n * q + r + 1 - n" using split by linarith
    then have "t = (q - 1) * n + r + 1" by (simp add: algebra_simps)
    then show ?thesis using r by linarith
  qed
  have hi: "t \<le> q * n"
  proof -
    have "t = n * q + r + 1 - n" using split by linarith
    then show ?thesis using r by (simp add: algebra_simps)
  qed
  have rn: "0 < real_of_int n" using n by simp
  have "real_of_int ((q - 1) * n) < real_of_int t" using lo by (simp only: of_int_less_iff)
  then have "(real_of_int q - 1) * real_of_int n < real_of_int t" by simp
  then have a: "real_of_int q - 1 < real_of_int t / real_of_int n"
    by (simp only: pos_less_divide_eq [OF rn])
  have "real_of_int t \<le> real_of_int (q * n)" using hi by (simp only: of_int_le_iff)
  then have "real_of_int t \<le> real_of_int q * real_of_int n" by simp
  then have b: "real_of_int t / real_of_int n \<le> real_of_int q"
    by (simp only: pos_divide_le_eq [OF rn])
  have "\<lceil>real_of_int t / real_of_int n\<rceil> = q"
    using a b by (rule ceiling_unique)
  then show ?thesis by (simp add: pages_spec_def q_def)
qed

lemma create_user_run:
  "create_user U R dto w =
     (if length (py_strip (create_name dto)) < 3 then (Inl NameTooShort, w)
      else if 50 < length (py_strip (create_name dto)) then (Inl NameTooLong, w)
      else if \<not> re_match_anchored email_body (create_email dto)
        then (Inl (InvalidEmail (create_email dto)), w)
      else
        (case repo_get_by_name R (create_name dto) (fst w) of
           (Some existing, s1) \<Rightarrow>
             (Inl (DuplicateName (create_name dto)), (s1, snd w @ [GetByName (create_name dto)]))
         | (None, s1) \<Rightarrow>
             (let u = \<lparr>user_id = None, user_name = py_strip (create_name dto),
                       user_email = py_lower U (create_email dto), user_active = True\<rparr>
              in case repo_create R u s1 of
                   (r, s2) \<Rightarrow>
                     (Inr r, (s2, snd w @ [GetByName (create_name dto), Create u])))))"
  by (simp add: create_user_def validate_name_length_def validate_email_format_def
      validate_name_unique_def call_get_by_name_def call_create_def min_name_length_def
      max_name_length_def Let_def split: prod.splits option.splits)

lemma get_user_run:
  "get_user R i w =
     (case repo_get R i (fst w) of
        (None, s1) \<Rightarrow> (Inl (NotFound i), (s1, snd w @ [Get i]))
      | (Some u, s1) \<Rightarrow> (Inr u, (s1, snd w @ [Get i])))"
  by (simp add: get_user_def call_get_def split: prod.splits option.splits)

lemma delete_user_run:
  "delete_user R i w =
     (case repo_get R i (fst w) of
        (None, s1) \<Rightarrow> (Inl (NotFound i), (s1, snd w @ [Get i]))
      | (Some u, s1) \<Rightarrow>
          (case repo_delete R i s1 of
             (b, s2) \<Rightarrow> (Inr b, (s2, snd w @ [Get i, Delete i]))))"
  by (simp add: delete_user_def get_user_run call_delete_def split: prod.splits option.splits)

lemma list_users_run:
  "list_users F R p n w =
     (if p < 1 then (Inl PageTooSmall, w)
      else if n < 1 \<or> 100 < n then (Inl PageSizeOutOfRange, w)
      else
        (case repo_list R p n (fst w) of
           ((us, t), s1) \<Rightarrow>
             (Inr \<lparr>items = map F us, total = t, page = p, page_size = n,
                   pages = (t + n - 1) div n\<rparr>, (s1, snd w @ [ListPage p n]))))"
  by (auto simp add: list_users_def call_list_def split: prod.splits)

lemma update_user_run:
  "update_user U R i dto w =
     (case repo_get R i (fst w) of
        (None, s0) \<Rightarrow> (Inl (NotFound i), (s0, snd w @ [Get i]))
      | (Some u0, s0) \<Rightarrow>
         (case update_name_step R (update_name dto) u0 (s0, snd w @ [Get i]) of
            (Inl e, w1) \<Rightarrow> (Inl e, w1)
          | (Inr u1, w1) \<Rightarrow>
             (case update_email_step U R (update_email dto) u1 w1 of
                (Inl e, w2) \<Rightarrow> (Inl e, w2)
              | (Inr u2, w2) \<Rightarrow>
                 (case repo_update R u2 (fst w2) of
                    (r, s3) \<Rightarrow> (Inr r, (s3, snd w2 @ [Update u2]))))))"
  by (simp add: update_user_def get_user_run call_update_def
      split: prod.splits option.splits sum.splits)

lemma update_name_step_run:
  "update_name_step R v u w =
     (case v of
        None \<Rightarrow> (Inr u, w)
      | Some n \<Rightarrow>
         if n = [] then (Inr u, w)
         else if length (py_strip n) < 3 then (Inl NameTooShort, w)
         else if 50 < length (py_strip n) then (Inl NameTooLong, w)
         else if n = user_name u
           then (Inr (u\<lparr>user_name := py_strip n\<rparr>),
                 (repo_assign R u (u\<lparr>user_name := py_strip n\<rparr>) (fst w), snd w))
         else
           (case repo_get_by_name R n (fst w) of
              (Some existing, s1) \<Rightarrow> (Inl (DuplicateName n), (s1, snd w @ [GetByName n]))
            | (None, s1) \<Rightarrow>
                (Inr (u\<lparr>user_name := py_strip n\<rparr>),
                 (repo_assign R u (u\<lparr>user_name := py_strip n\<rparr>) s1, snd w @ [GetByName n]))))"
  by (simp add: update_name_step_def if_truthy_def validate_name_length_def
      validate_name_unique_def call_get_by_name_def min_name_length_def max_name_length_def
      assign_def Let_def split: prod.splits option.splits)

lemma update_email_step_run:
  "update_email_step U R v u w =
     (case v of
        None \<Rightarrow> (Inr u, w)
      | Some m \<Rightarrow>
         if m = [] then (Inr u, w)
         else if \<not> re_match_anchored email_body m then (Inl (InvalidEmail m), w)
         else (Inr (u\<lparr>user_email := py_lower U m\<rparr>),
               (repo_assign R u (u\<lparr>user_email := py_lower U m\<rparr>) (fst w), snd w)))"
  by (simp add: update_email_step_def if_truthy_def validate_email_format_def assign_def
      Let_def split: option.splits)

section \<open>The matcher decides the language of the pattern\<close>

lemma nullable_lang: "nullable r \<longleftrightarrow> [] \<in> lang r"
  by (induction r) (auto simp: conc_def intro: star_empty)

lemma conc_cons:
  "c # w \<in> conc A B \<longleftrightarrow>
     (\<exists>u v. w = u @ v \<and> c # u \<in> A \<and> v \<in> B) \<or> ([] \<in> A \<and> c # w \<in> B)"
proof
  assume "c # w \<in> conc A B"
  then obtain x y where xy: "c # w = x @ y" "x \<in> A" "y \<in> B"
    by (auto simp: conc_def)
  show "(\<exists>u v. w = u @ v \<and> c # u \<in> A \<and> v \<in> B) \<or> ([] \<in> A \<and> c # w \<in> B)"
  proof (cases x)
    case Nil
    with xy show ?thesis by simp
  next
    case (Cons a u)
    with xy have "w = u @ y" "c # u \<in> A" by simp_all
    with xy(3) show ?thesis by blast
  qed
next
  assume "(\<exists>u v. w = u @ v \<and> c # u \<in> A \<and> v \<in> B) \<or> ([] \<in> A \<and> c # w \<in> B)"
  then show "c # w \<in> conc A B"
  proof
    assume "\<exists>u v. w = u @ v \<and> c # u \<in> A \<and> v \<in> B"
    then obtain u v where "w = u @ v" "c # u \<in> A" "v \<in> B" by blast
    then have "c # w = (c # u) @ v" by simp
    with \<open>c # u \<in> A\<close> \<open>v \<in> B\<close> show ?thesis unfolding conc_def by blast
  next
    assume "[] \<in> A \<and> c # w \<in> B"
    then have "c # w = [] @ (c # w)" "[] \<in> A" "c # w \<in> B" by simp_all
    then show ?thesis unfolding conc_def by blast
  qed
qed

lemma star_cons_split:
  assumes "x \<in> star A" and "x = c # w"
  shows "\<exists>u v. w = u @ v \<and> c # u \<in> A \<and> v \<in> star A"
  using assms
proof (induction arbitrary: w rule: star.induct)
  case star_empty
  then show ?case by simp
next
  case (star_more u v)
  show ?case
  proof (cases u)
    case Nil
    with star_more show ?thesis by simp
  next
    case (Cons a u')
    with star_more.prems have "w = u' @ v" "a = c" by simp_all
    with Cons star_more.hyps show ?thesis by blast
  qed
qed

lemma star_cons:
  "c # w \<in> star A \<longleftrightarrow> (\<exists>u v. w = u @ v \<and> c # u \<in> A \<and> v \<in> star A)"
proof
  assume "c # w \<in> star A"
  then show "\<exists>u v. w = u @ v \<and> c # u \<in> A \<and> v \<in> star A"
    by (rule star_cons_split) simp
next
  assume "\<exists>u v. w = u @ v \<and> c # u \<in> A \<and> v \<in> star A"
  then obtain u v where "w = u @ v" "c # u \<in> A" "v \<in> star A" by blast
  then have "(c # u) @ v \<in> star A" "c # w = (c # u) @ v"
    by (simp_all add: star_more del: append_Cons)
  then show "c # w \<in> star A" by simp
qed

lemma deriv_lang: "w \<in> lang (deriv c r) \<longleftrightarrow> c # w \<in> lang r"
proof (induction r arbitrary: w)
  case (Cat r1 r2)
  then show ?case
    by (simp add: conc_cons nullable_lang) (auto simp: conc_def)
next
  case (Many r)
  then show ?case
    by (simp add: star_cons) (auto simp: conc_def)
qed auto

lemma full_match_lang: "full_match r w \<longleftrightarrow> w \<in> lang r"
  by (induction w arbitrary: r) (simp_all add: nullable_lang deriv_lang)

lemma star_class: "w \<in> star {[c] | c. P c} \<longleftrightarrow> list_all P w"
proof (induction w)
  case Nil
  show ?case by (simp add: star_empty)
next
  case (Cons a w)
  have "a # w \<in> star {[c] | c. P c} \<longleftrightarrow> P a \<and> w \<in> star {[c] | c. P c}"
    by (auto simp: star_cons)
  with Cons show ?case by simp
qed

lemma lang_one_or_more:
  "w \<in> lang (one_or_more (Class rs)) \<longleftrightarrow> w \<noteq> [] \<and> list_all (in_class rs) w"
proof (cases w)
  case Nil
  then show ?thesis by (simp add: one_or_more_def conc_def)
next
  case (Cons a v)
  then show ?thesis
    by (auto simp add: one_or_more_def conc_cons star_class)
qed

lemma lang_two_or_more:
  "w \<in> lang (two_or_more (Class rs)) \<longleftrightarrow> 2 \<le> length w \<and> list_all (in_class rs) w"
proof (cases w)
  case Nil
  then show ?thesis by (simp add: two_or_more_def conc_def)
next
  case (Cons a v)
  show ?thesis
  proof (cases v)
    case Nil
    with Cons show ?thesis by (auto simp add: two_or_more_def conc_cons conc_def)
  next
    case (Cons b u)
    with \<open>w = a # v\<close> show ?thesis
      by (auto simp add: two_or_more_def conc_cons star_class)
  qed
qed

lemma conc_single: "w \<in> conc {[c]} B \<longleftrightarrow> (\<exists>v. w = c # v \<and> v \<in> B)"
  by (auto simp: conc_def)

lemma lang_single: "lang (Class [(c, c)]) = {[c]}"
  by (auto simp: in_class_def)

lemma full_match_email: "full_match email_body s \<longleftrightarrow> email_shape s"
proof -
  have "s \<in> lang email_body \<longleftrightarrow>
    (\<exists>l x. s = l @ x \<and> l \<in> lang (one_or_more (Class local_class)) \<and>
      (\<exists>y. x = 64 # y \<and> (\<exists>d z. y = d @ z \<and> d \<in> lang (one_or_more (Class domain_class)) \<and>
        (\<exists>t. z = 46 # t \<and> t \<in> lang (two_or_more (Class alpha_class))))))"
    unfolding email_body_def lang.simps(4) lang_single conc_single
    by (auto simp: conc_def)
  also have "\<dots> \<longleftrightarrow>
    (\<exists>l d t. s = l @ [64] @ d @ [46] @ t \<and> l \<in> lang (one_or_more (Class local_class)) \<and>
       d \<in> lang (one_or_more (Class domain_class)) \<and> t \<in> lang (two_or_more (Class alpha_class)))"
    by (simp, blast)
  finally show ?thesis
    unfolding full_match_lang email_shape_def lang_one_or_more lang_two_or_more
    by (simp add: conj_ac)
qed

lemma re_match_email:
  "re_match_anchored email_body s \<longleftrightarrow> email_shape s \<or> (\<exists>t. s = t @ [10] \<and> email_shape t)"
proof -
  have "(s \<noteq> [] \<and> last s = 10 \<and> email_shape (butlast s)) \<longleftrightarrow> (\<exists>t. s = t @ [10] \<and> email_shape t)"
    by (metis append_butlast_last_id butlast_snoc last_snoc snoc_eq_iff_butlast)
  then show ?thesis
    by (simp add: re_match_anchored_def full_match_email)
qed

lemma class_ascii:
  "in_class local_class c \<Longrightarrow> c < 128"
  "in_class domain_class c \<Longrightarrow> c < 128"
  "in_class alpha_class c \<Longrightarrow> c < 128"
  by (auto simp: in_class_def local_class_def domain_class_def alpha_class_def)

lemma email_shape_ascii:
  assumes "email_shape s"
  shows "list_all (\<lambda>c. c < 128) s"
proof -
  obtain l d t where s: "s = l @ [64] @ d @ [46] @ t"
    and l: "list_all (in_class local_class) l"
    and d: "list_all (in_class domain_class) d"
    and t: "list_all (in_class alpha_class) t"
    using assms unfolding email_shape_def by blast
  have "list_all (\<lambda>c. c < 128) l"
    using l by (rule list.pred_mono_strong) (rule class_ascii(1))
  moreover have "list_all (\<lambda>c. c < 128) d"
    using d by (rule list.pred_mono_strong) (rule class_ascii(2))
  moreover have "list_all (\<lambda>c. c < 128) t"
    using t by (rule list.pred_mono_strong) (rule class_ascii(3))
  ultimately show ?thesis by (simp add: s)
qed

lemma email_ascii: "re_match_anchored email_body s \<Longrightarrow> list_all (\<lambda>c. c < 128) s"
  by (auto simp: re_match_email dest: email_shape_ascii)

lemma py_lower_email:
  "re_match_anchored email_body s \<Longrightarrow> py_lower U s = map ascii_lower s"
  by (simp add: py_lower_def email_ascii)

text \<open>
  Python's \<^verbatim>\<open>$\<close> lets one line feed follow the address: such a string passes
  \<^verbatim>\<open>re.match\<close> although it is not of the shape the pattern describes.
\<close>

lemma email_trailing_line_feed_accepted:
  "re_match_anchored email_body (cp ''kim@test.com'' @ [10])
   \<and> \<not> email_shape (cp ''kim@test.com'' @ [10])"
  by (simp add: full_match_email [symmetric])
    (simp add: cp_def re_match_anchored_def email_body_def one_or_more_def two_or_more_def
      local_class_def domain_class_def alpha_class_def in_class_def)

section \<open>Properties of the service\<close>

lemma made_calls_same: "made_calls w (x, w) = []"
  by (simp add: made_calls_def)

lemma made_calls_append: "made_calls w (x, (s, snd w @ cs)) = cs"
  by (simp add: made_calls_def)

lemma example_email_upper: "re_match_anchored email_body (cp ''HONG@TEST.COM'')"
  by (simp add: cp_def re_match_anchored_def email_body_def one_or_more_def two_or_more_def
      local_class_def domain_class_def alpha_class_def in_class_def)

lemma example_create_hong:
  "create_user (\<lambda>s. s) table_repository
      \<lparr>create_name = cp ''  hong  '', create_email = cp ''HONG@TEST.COM''\<rparr> ([kim], []) =
     (Inr hong, ([kim, hong], [GetByName (cp ''  hong  ''), Create (hong\<lparr>user_id := None\<rparr>)]))"
  by (simp add: create_user_run table_repository_def kim_def hong_def fresh_id_def Let_def
      py_lower_def ascii_lower_def cp_def py_strip_def py_isspace_def re_match_anchored_def
      email_body_def one_or_more_def two_or_more_def local_class_def domain_class_def
      alpha_class_def in_class_def)

text \<open>
  A valid create request is refused when the repository finds a user under the name as it
  was sent. The update path on fields that are supplied and not empty: the record keeps its own name
  without a lookup, a name that the repository finds on another record is refused before
  the update call, and an update that succeeds has validated each such field and handed its
  normalised value to the update call. An update that passes the name checks and then fails
  on the e-mail makes no update call, but the fetched object has been renamed by then, and
  a repository that shares the object holds the new name.
\<close>

lemma create_taken_name_rejected:
  assumes "validate_name_length (create_name dto) = None"
    and "re_match_anchored email_body (create_email dto)"
    and "repo_get_by_name R (create_name dto) (fst w) = (Some existing, s1)"
  shows "create_user U R dto w =
     (Inl (DuplicateName (create_name dto)), (s1, snd w @ [GetByName (create_name dto)]))"
  using assms
  by (simp add: create_user_run validate_name_length_def min_name_length_def
      max_name_length_def Let_def split: if_splits)

lemma update_same_name_skips_lookup:
  assumes "repo_get R i (fst w) = (Some u0, s0)"
    and "update_name dto = Some (user_name u0)" and "user_name u0 \<noteq> []"
    and "validate_name_length (user_name u0) = None"
    and "update_email dto = None"
    and "repo_update R (u0\<lparr>user_name := py_strip (user_name u0)\<rparr>)
           (repo_assign R u0 (u0\<lparr>user_name := py_strip (user_name u0)\<rparr>) s0) = (r, s1)"
  shows "update_user U R i dto w =
     (Inr r, (s1, snd w @ [Get i, Update (u0\<lparr>user_name := py_strip (user_name u0)\<rparr>)]))"
  using assms
  by (simp add: update_user_run update_name_step_run update_email_step_run
      validate_name_length_def min_name_length_def max_name_length_def Let_def
      split: if_splits)

lemma update_taken_name_rejected:
  assumes "repo_get R i (fst w) = (Some u0, s0)"
    and "update_name dto = Some n" and "n \<noteq> []"
    and "validate_name_length n = None"
    and "n \<noteq> user_name u0"
    and "repo_get_by_name R n s0 = (Some other, s1)"
  shows "update_user U R i dto w = (Inl (DuplicateName n), (s1, snd w @ [Get i, GetByName n]))"
  using assms
  by (simp add: update_user_run update_name_step_run
      validate_name_length_def min_name_length_def max_name_length_def Let_def
      split: if_splits)

lemma update_renames_before_email_check:
  assumes "repo_get R i (fst w) = (Some u0, s0)"
    and "update_name dto = Some n" and "n \<noteq> []"
    and "validate_name_length n = None"
    and "n \<noteq> user_name u0"
    and "repo_get_by_name R n s0 = (None, s1)"
    and "update_email dto = Some m" and "m \<noteq> []"
    and "\<not> re_match_anchored email_body m"
  shows "update_user U R i dto w =
     (Inl (InvalidEmail m),
      (repo_assign R u0 (u0\<lparr>user_name := py_strip n\<rparr>) s1, snd w @ [Get i, GetByName n]))"
  using assms
  by (simp add: update_user_run update_name_step_run update_email_step_run
      validate_name_length_def min_name_length_def max_name_length_def Let_def
      split: if_splits)

lemma example_update_renames_then_fails:
  "update_user (\<lambda>s. s) table_repository 2
       \<lparr>update_name = Some (cp ''hwang''), update_email = Some (cp ''invalid-email'')\<rparr>
       ([kim, hong], []) =
     (Inl (InvalidEmail (cp ''invalid-email'')),
      ([kim, hong\<lparr>user_name := cp ''hwang''\<rparr>], [Get 2, GetByName (cp ''hwang'')]))"
  by (simp add: update_user_run update_name_step_run update_email_step_run
      table_repository_def kim_def hong_def cp_def py_strip_def py_isspace_def
      re_match_anchored_def email_body_def one_or_more_def two_or_more_def local_class_def
      domain_class_def alpha_class_def in_class_def)

lemma update_validates_nonempty_fields:
  assumes "repo_get R i (fst w) = (Some u0, s0)"
    and "update_user U R i dto w = (Inr r, w')"
  shows "(\<forall>n. update_name dto = Some n \<and> n \<noteq> [] \<longrightarrow>
            validate_name_length n = None \<and>
            (\<exists>u. Update u \<in> set (made_calls w (Inr r, w')) \<and> user_name u = py_strip n))
         \<and> (\<forall>m. update_email dto = Some m \<and> m \<noteq> [] \<longrightarrow>
            validate_email_format m = None \<and>
            (\<exists>u. Update u \<in> set (made_calls w (Inr r, w')) \<and> user_email u = py_lower U m))"
  using assms
  by (auto simp add: update_user_run update_name_step_run update_email_step_run
      validate_name_length_def validate_email_format_def min_name_length_def
      max_name_length_def made_calls_def Let_def
      split: if_splits option.splits prod.splits sum.splits)

subsection \<open>Creating a user\<close>

text \<open>
  C1. A create request whose name, once trimmed, is the name of a stored user must fail
  with the duplicate-name error and must not reach the repository's create. The service
  asks the repository for the name as it was sent (line 102) and trims it only when it
  builds the entity (line 106). With the user \<open>kim\<close> stored, the request for the name
  \<^verbatim>\<open>" kim "\<close> finds nobody, is stored, and the table then holds two users
  named \<^verbatim>\<open>"kim"\<close>.
\<close>

theorem create_padded_name_duplicates:
  "py_strip (cp '' kim '') = user_name kim
   \<and> repo_get_by_name table_repository (py_strip (cp '' kim '')) [kim] = (Some kim, [kim])
   \<and> create_user (\<lambda>s. s) table_repository
        \<lparr>create_name = cp '' kim '', create_email = cp ''kim2@test.com''\<rparr> ([kim], []) =
       (Inr kim_again,
        ([kim, kim_again], [GetByName (cp '' kim ''), Create (kim_again\<lparr>user_id := None\<rparr>)]))
   \<and> user_name kim_again = user_name kim"
  by (simp add: create_user_run table_repository_def kim_def kim_again_def fresh_id_def Let_def
      py_lower_def ascii_lower_def cp_def py_strip_def py_isspace_def re_match_anchored_def
      email_body_def one_or_more_def two_or_more_def local_class_def domain_class_def
      alpha_class_def in_class_def)

text \<open>
  C2. A create request whose trimmed name has 3 to 50 characters, whose e-mail matches the
  pattern, and for whose name the repository's get-by-name finds no user, succeeds: the
  service asks for the name, then calls create with an entity whose name is the trimmed
  name, whose e-mail is the lower-cased e-mail and which is active, and returns what the
  repository returns. A matching e-mail is ASCII, so its lower-casing does not depend on the
  Unicode case mapping.
\<close>

theorem create_valid_request_succeeds:
  assumes "3 \<le> length (py_strip (create_name dto))"
    and "length (py_strip (create_name dto)) \<le> 50"
    and "re_match_anchored email_body (create_email dto)"
    and "repo_get_by_name R (create_name dto) (fst w) = (None, s1)"
    and "repo_create R
           \<lparr>user_id = None, user_name = py_strip (create_name dto),
            user_email = py_lower U (create_email dto), user_active = True\<rparr> s1 = (r, s2)"
  shows "create_user U R dto w =
           (Inr r, (s2, snd w @ [GetByName (create_name dto),
              Create \<lparr>user_id = None, user_name = py_strip (create_name dto),
                      user_email = py_lower U (create_email dto), user_active = True\<rparr>]))
         \<and> py_lower U (create_email dto) = map ascii_lower (create_email dto)"
  using assms by (simp add: create_user_run py_lower_email)

theorem create_valid_request_succeeds_witness:
  "3 \<le> length (py_strip (cp ''  hong  '')) \<and> length (py_strip (cp ''  hong  '')) \<le> 50
   \<and> re_match_anchored email_body (cp ''HONG@TEST.COM'')
   \<and> repo_get_by_name table_repository (cp ''  hong  '') [kim] = (None, [kim])
   \<and> create_user (\<lambda>s. s) table_repository
        \<lparr>create_name = cp ''  hong  '', create_email = cp ''HONG@TEST.COM''\<rparr> ([kim], []) =
       (Inr hong, ([kim, hong], [GetByName (cp ''  hong  ''), Create (hong\<lparr>user_id := None\<rparr>)]))"
proof -
  have n: "py_strip (cp ''  hong  '') = cp ''hong''"
    by (simp add: cp_def py_strip_def py_isspace_def)
  have len: "length (cp ''hong'') = 4"
    by (simp add: cp_def)
  have g: "repo_get_by_name table_repository (cp ''  hong  '') [kim] = (None, [kim])"
    by (simp add: table_repository_def kim_def cp_def)
  have l: "py_lower (\<lambda>s. s) (cp ''HONG@TEST.COM'') = cp ''hong@test.com''"
    by (simp add: py_lower_def cp_def ascii_lower_def)
  have c: "repo_create table_repository
      \<lparr>user_id = None, user_name = cp ''hong'', user_email = cp ''hong@test.com'',
       user_active = True\<rparr> [kim] = (hong, [kim, hong])"
    by (simp add: table_repository_def kim_def hong_def fresh_id_def Let_def)
  show ?thesis
    using create_valid_request_succeeds [where U = "\<lambda>s. s" and R = table_repository
        and dto = "\<lparr>create_name = cp ''  hong  '', create_email = cp ''HONG@TEST.COM''\<rparr>"
        and w = "([kim], [])" and ?s1.0 = "[kim]" and r = hong and ?s2.0 = "[kim, hong]"]
      example_email_upper g c
    by (simp add: n l len hong_def)
qed

text \<open>
  C6. A create request whose trimmed name has fewer than 3 or more than 50 characters
  fails with the error for a name that is too short or too long, and the world is the one
  the call started in: the service has made no repository call, neither the lookup by name
  nor the create.
\<close>

theorem create_rejects_name_length:
  assumes "length (py_strip (create_name dto)) < 3 \<or> 50 < length (py_strip (create_name dto))"
  shows "create_user U R dto w =
           (Inl (if length (py_strip (create_name dto)) < 3 then NameTooShort else NameTooLong), w)
         \<and> made_calls w (create_user U R dto w) = []"
  using assms by (auto simp add: create_user_run made_calls_same)

theorem create_rejects_name_length_witness:
  "length (py_strip (create_name \<lparr>create_name = cp ''  ab '', create_email = cp ''ab@test.com''\<rparr>)) < 3
   \<and> create_user (\<lambda>s. s) table_repository
        \<lparr>create_name = cp ''  ab '', create_email = cp ''ab@test.com''\<rparr> ([kim], [])
       = (Inl NameTooShort, ([kim], []))"
  using create_rejects_name_length [where dto = "\<lparr>create_name = cp ''  ab '', create_email = cp ''ab@test.com''\<rparr>"
      and U = "\<lambda>s. s" and R = table_repository and w = "([kim], [])"]
  by (simp add: cp_def py_strip_def py_isspace_def)

text \<open>
  An e-mail that \<^verbatim>\<open>re.match\<close> refuses makes create-user fail without a repository call;
  the name is checked first, so the error is the one for the e-mail when the name is valid.
\<close>

lemma create_rejects_unmatched_email:
  assumes "\<not> re_match_anchored email_body (create_email dto)"
  shows "(\<exists>e. create_user U R dto w = (Inl e, w))
         \<and> made_calls w (create_user U R dto w) = []
         \<and> (validate_name_length (create_name dto) = None \<longrightarrow>
              create_user U R dto w = (Inl (InvalidEmail (create_email dto)), w))"
  using assms
  by (auto simp add: create_user_run made_calls_same validate_name_length_def
      min_name_length_def max_name_length_def Let_def split: if_splits)

text \<open>
  C9. A create request whose e-mail is not of the shape of the pattern must fail with the
  error for a malformed e-mail, and nothing may be written. Line 268 asks \<^verbatim>\<open>re.match\<close>,
  and the \<^verbatim>\<open>$\<close> of the pattern also holds before a line feed that ends the string. The
  address \<^verbatim>\<open>hong@test.com\<close> followed by a line feed is not of that shape, yet the
  request passes the check: the repository's create is called and the user is stored with
  the line feed in the e-mail.
\<close>

theorem create_accepts_trailing_line_feed:
  "\<not> email_shape (cp ''hong@test.com'' @ [10])
   \<and> validate_email_format (cp ''hong@test.com'' @ [10]) = None
   \<and> create_user (\<lambda>s. s) table_repository
        \<lparr>create_name = cp ''hong'', create_email = cp ''hong@test.com'' @ [10]\<rparr> ([kim], []) =
       (Inr hong_line_feed,
        ([kim, hong_line_feed],
         [GetByName (cp ''hong''), Create (hong_line_feed\<lparr>user_id := None\<rparr>)]))"
proof -
  have shape: "\<not> email_shape (cp ''hong@test.com'' @ [10])"
    by (simp add: full_match_email [symmetric])
      (simp add: cp_def email_body_def one_or_more_def two_or_more_def
        local_class_def domain_class_def alpha_class_def in_class_def)
  have accepted: "re_match_anchored email_body (cp ''hong@test.com'' @ [10])"
    by (simp add: cp_def re_match_anchored_def email_body_def one_or_more_def two_or_more_def
        local_class_def domain_class_def alpha_class_def in_class_def)
  have lower: "py_lower (\<lambda>s. s) (cp ''hong@test.com'' @ [10]) = cp ''hong@test.com'' @ [10]"
    by (simp add: py_lower_def ascii_lower_def cp_def)
  have name: "py_strip (cp ''hong'') = cp ''hong''" "length (cp ''hong'') = 4"
    by (simp_all add: cp_def py_strip_def py_isspace_def)
  have lookup: "repo_get_by_name table_repository (cp ''hong'') [kim] = (None, [kim])"
    by (simp add: table_repository_def kim_def cp_def)
  have stored: "repo_create table_repository (hong_line_feed\<lparr>user_id := None\<rparr>) [kim] =
      (hong_line_feed, [kim, hong_line_feed])"
    by (simp add: table_repository_def kim_def hong_line_feed_def fresh_id_def Let_def)
  have "create_user (\<lambda>s. s) table_repository
        \<lparr>create_name = cp ''hong'', create_email = cp ''hong@test.com'' @ [10]\<rparr> ([kim], []) =
       (Inr hong_line_feed,
        ([kim, hong_line_feed],
         [GetByName (cp ''hong''), Create (hong_line_feed\<lparr>user_id := None\<rparr>)]))"
    using stored
    by (simp add: create_user_run accepted lower name lookup hong_line_feed_def)
  with shape accepted show ?thesis
    by (simp add: validate_email_format_def)
qed

text \<open>
  C10. Every entity that a run of create-user passes to the repository's create has the
  active flag set.
\<close>

theorem create_passes_active_user:
  assumes "Create u \<in> set (made_calls w (create_user U R dto w))"
  shows "user_active u"
  using assms
  by (auto simp add: create_user_run made_calls_same made_calls_append Let_def
      split: if_splits prod.splits option.splits)

theorem create_passes_active_user_witness:
  "Create (hong\<lparr>user_id := None\<rparr>) \<in> set (made_calls ([kim], [])
       (create_user (\<lambda>s. s) table_repository
          \<lparr>create_name = cp ''  hong  '', create_email = cp ''HONG@TEST.COM''\<rparr> ([kim], [])))
   \<and> user_active (hong\<lparr>user_id := None\<rparr>)"
proof -
  have "Create (hong\<lparr>user_id := None\<rparr>) \<in> set (made_calls ([kim], [])
       (create_user (\<lambda>s. s) table_repository
          \<lparr>create_name = cp ''  hong  '', create_email = cp ''HONG@TEST.COM''\<rparr> ([kim], [])))"
    by (simp add: example_create_hong made_calls_def)
  then show ?thesis
    using create_passes_active_user by blast
qed

subsection \<open>Reading, listing and deleting\<close>

text \<open>
  C5. For a page number of at least 1, a page size from 1 to 100 and a repository result
  \<open>(us, t)\<close> with \<open>t\<close> not negative, list-users returns the envelope with the converted
  items, the total \<open>t\<close>, the page and page size it was given, and \<open>ceil(t / page_size)\<close>
  pages; a total of 2 with pages of 20 gives 1 page.
\<close>

theorem list_users_envelope:
  assumes "1 \<le> p" and "1 \<le> n" and "n \<le> 100"
    and "repo_list R p n (fst w) = ((us, t), s1)" and "0 \<le> t"
  shows "list_users F R p n w =
           (Inr \<lparr>items = map F us, total = t, page = p, page_size = n, pages = pages_spec t n\<rparr>,
            (s1, snd w @ [ListPage p n]))
         \<and> pages_spec 2 20 = 1"
proof -
  have "(t + n - 1) div n = pages_spec t n"
    using assms(2) by (rule pages_formula)
  moreover have "pages_spec 2 20 = (2 + 20 - 1) div 20"
    by (rule pages_formula [symmetric]) simp
  ultimately show ?thesis
    using assms by (simp add: list_users_run)
qed

theorem list_users_envelope_witness:
  "(1::int) \<le> 1 \<and> (1::int) \<le> 20 \<and> (20::int) \<le> 100
   \<and> repo_list table_repository 1 20 (fst ([kim, hong], [])) = (([kim, hong], 2), [kim, hong])
   \<and> (0::int) \<le> 2
   \<and> list_users user_name table_repository 1 20 ([kim, hong], []) =
       (Inr \<lparr>items = [cp ''kim'', cp ''hong''], total = 2, page = 1, page_size = 20, pages = 1\<rparr>,
        ([kim, hong], [ListPage 1 20]))"
proof -
  have l: "repo_list table_repository 1 20 (fst ([kim, hong], [])) = (([kim, hong], 2), [kim, hong])"
    by (simp add: table_repository_def)
  show ?thesis
    using l list_users_envelope [where p = 1 and n = 20 and R = table_repository
        and w = "([kim, hong], [])" and us = "[kim, hong]" and t = 2 and ?s1.0 = "[kim, hong]"
        and F = user_name]
    by (simp add: kim_def hong_def)
qed

text \<open>
  C7. List-users fails exactly when the page number is below 1 or the page size is not
  from 1 to 100, and a call that fails leaves the world as it was: the repository's list
  has not been called.
\<close>

theorem list_users_fails_iff:
  "((\<exists>e. fst (list_users F R p n w) = Inl e) \<longleftrightarrow> (p < 1 \<or> n < 1 \<or> 100 < n))
   \<and> ((p < 1 \<or> n < 1 \<or> 100 < n) \<longrightarrow>
        snd (list_users F R p n w) = w \<and> made_calls w (list_users F R p n w) = [])"
proof (cases "p < 1 \<or> n < 1 \<or> 100 < n")
  case True
  then have "\<exists>e. list_users F R p n w = (Inl e, w)"
    by (auto simp add: list_users_run)
  then obtain e where "list_users F R p n w = (Inl e, w)" ..
  with True show ?thesis
    by (simp add: made_calls_same)
next
  case False
  obtain us t s1 where "repo_list R p n (fst w) = ((us, t), s1)"
    by (metis surj_pair)
  with False have "\<exists>v w'. list_users F R p n w = (Inr v, w')"
    by (simp add: list_users_run)
  then obtain v w' where "list_users F R p n w = (Inr v, w')" by blast
  with False show ?thesis by simp
qed

theorem list_users_fails_iff_witness:
  "(0::int) < 1
   \<and> list_users user_name table_repository 0 20 ([kim, hong], []) =
       (Inl PageTooSmall, ([kim, hong], []))
   \<and> made_calls ([kim, hong], [])
        (list_users user_name table_repository 0 20 ([kim, hong], [])) = []
   \<and> (100::int) < 101
   \<and> list_users user_name table_repository 1 101 ([kim, hong], []) =
       (Inl PageSizeOutOfRange, ([kim, hong], []))
   \<and> \<not> ((1::int) < 1 \<or> (20::int) < 1 \<or> (100::int) < 20)
   \<and> (\<forall>e. fst (list_users user_name table_repository 1 20 ([kim, hong], [])) \<noteq> Inl e)"
  using list_users_fails_iff [where F = user_name and R = table_repository and p = 0 and n = 20
      and w = "([kim, hong], [])"]
    list_users_fails_iff [where F = user_name and R = table_repository and p = 1 and n = 101
      and w = "([kim, hong], [])"]
    list_users_fails_iff [where F = user_name and R = table_repository and p = 1 and n = 20
      and w = "([kim, hong], [])"]
  by (simp add: list_users_run)

text \<open>
  C8. When the repository's get-by-id finds no record, get-user fails with the not-found
  error, and delete-user fails with the same error after that one lookup, without calling
  the repository's delete. When it finds a record, get-user returns it, and delete-user
  calls the repository's delete and returns its boolean.
\<close>

theorem get_and_delete_missing_or_present:
  "(fst (repo_get R i (fst w)) = None \<longrightarrow>
      fst (get_user R i w) = Inl (NotFound i) \<and>
      fst (delete_user R i w) = Inl (NotFound i) \<and>
      made_calls w (delete_user R i w) = [Get i])
   \<and> (\<forall>u. fst (repo_get R i (fst w)) = Some u \<longrightarrow>
      fst (get_user R i w) = Inr u \<and>
      fst (delete_user R i w) = Inr (fst (repo_delete R i (snd (repo_get R i (fst w))))) \<and>
      made_calls w (delete_user R i w) = [Get i, Delete i])"
proof -
  obtain found s1 where g: "repo_get R i (fst w) = (found, s1)"
    by (cases "repo_get R i (fst w)")
  obtain b s2 where d: "repo_delete R i s1 = (b, s2)"
    by (cases "repo_delete R i s1")
  show ?thesis
  proof (cases found)
    case None
    with g show ?thesis
      by (simp add: get_user_run delete_user_run made_calls_append)
  next
    case (Some u)
    with g d show ?thesis
      by (simp add: get_user_run delete_user_run made_calls_append)
  qed
qed

theorem get_and_delete_missing_or_present_witness:
  "fst (repo_get table_repository 7 (fst ([kim, hong], []))) = None
   \<and> fst (get_user table_repository 7 ([kim, hong], [])) = Inl (NotFound 7)
   \<and> fst (delete_user table_repository 7 ([kim, hong], [])) = Inl (NotFound 7)
   \<and> made_calls ([kim, hong], []) (delete_user table_repository 7 ([kim, hong], [])) = [Get 7]
   \<and> fst (repo_get table_repository 2 (fst ([kim, hong], []))) = Some hong
   \<and> fst (get_user table_repository 2 ([kim, hong], [])) = Inr hong
   \<and> delete_user table_repository 2 ([kim, hong], []) = (Inr True, ([kim], [Get 2, Delete 2]))"
  using get_and_delete_missing_or_present [where R = table_repository and i = 7 and w = "([kim, hong], [])"]
    get_and_delete_missing_or_present [where R = table_repository and i = 2 and w = "([kim, hong], [])"]
  by (simp add: table_repository_def kim_def hong_def delete_user_run)

subsection \<open>Updating a user\<close>


text \<open>
  C4. Updating to a name that another record holds must fail with the duplicate-name error
  before the update call, and updating a record to its own name must not consult
  get-by-name. Lines 202 and 203 compare and look up the name as it was sent, and line 205
  stores it trimmed. With \<open>kim\<close> and \<open>hong\<close> stored, renaming \<open>hong\<close> to
  \<^verbatim>\<open>" kim "\<close> finds nobody and leaves two users named \<^verbatim>\<open>"kim"\<close>; renaming
  \<open>kim\<close> to \<^verbatim>\<open>" kim "\<close> consults get-by-name although the stored name stays.
\<close>

theorem update_padded_name_duplicates:
  "update_user (\<lambda>s. s) table_repository 2
       \<lparr>update_name = Some (cp '' kim ''), update_email = None\<rparr> ([kim, hong], []) =
     (Inr (hong\<lparr>user_name := cp ''kim''\<rparr>),
      ([kim, hong\<lparr>user_name := cp ''kim''\<rparr>],
       [Get 2, GetByName (cp '' kim ''), Update (hong\<lparr>user_name := cp ''kim''\<rparr>)]))
   \<and> user_name (hong\<lparr>user_name := cp ''kim''\<rparr>) = user_name kim
   \<and> made_calls ([kim, hong], [])
        (update_user (\<lambda>s. s) table_repository 1
           \<lparr>update_name = Some (cp '' kim ''), update_email = None\<rparr> ([kim, hong], [])) =
       [Get 1, GetByName (cp '' kim ''), Update kim]"
  by (simp add: update_user_run update_name_step_run update_email_step_run made_calls_def
      table_repository_def kim_def hong_def cp_def py_strip_def py_isspace_def)

end
